theory Spec2Isabelle
  imports Complex_Main
begin

section \<open>JavaScript numbers and property reads\<close>

text \<open>
  The collector computes with JavaScript numbers. A number is modelled as a real, or one
  of the three non-finite values; rounding and overflow of doubles are not modelled.
  Capture times (\<open>Date.now()\<close>) are integers. The operations below are the ones the
  collector applies to values that may be non-finite: \<open>+\<close>, binary \<open>-\<close>, \<open>/\<close> and
  the comparison \<open>>=\<close>.
\<close>

datatype jsnum = Num real | PInf | NInf | NaN

text \<open>The result of reading a property: \<open>undefined\<close> when the object has no such property.\<close>

datatype jsval = Undefined | JSNumber jsnum

fun ToNumber :: "jsval \<Rightarrow> jsnum" where
  "ToNumber Undefined = NaN"
| "ToNumber (JSNumber n) = n"

fun js_neg :: "jsnum \<Rightarrow> jsnum" where
  "js_neg (Num a) = Num (- a)"
| "js_neg PInf = NInf"
| "js_neg NInf = PInf"
| "js_neg NaN = NaN"

fun js_add :: "jsnum \<Rightarrow> jsnum \<Rightarrow> jsnum" where
  "js_add NaN b = NaN"
| "js_add a NaN = NaN"
| "js_add (Num a) (Num b) = Num (a + b)"
| "js_add PInf NInf = NaN"
| "js_add NInf PInf = NaN"
| "js_add PInf b = PInf"
| "js_add a PInf = PInf"
| "js_add NInf b = NInf"
| "js_add a NInf = NInf"

definition js_sub :: "jsnum \<Rightarrow> jsnum \<Rightarrow> jsnum" where
  "js_sub a b = js_add a (js_neg b)"

text \<open>Division; a finite number divided by zero is an infinity, and \<open>0 / 0\<close> is NaN.\<close>

fun js_div :: "jsnum \<Rightarrow> jsnum \<Rightarrow> jsnum" where
  "js_div NaN b = NaN"
| "js_div a NaN = NaN"
| "js_div (Num a) (Num b) =
     (if b = 0 then (if a = 0 then NaN else if 0 < a then PInf else NInf)
      else Num (a / b))"
| "js_div (Num a) PInf = Num 0"
| "js_div (Num a) NInf = Num 0"
| "js_div PInf (Num b) = (if 0 \<le> b then PInf else NInf)"
| "js_div NInf (Num b) = (if 0 \<le> b then NInf else PInf)"
| "js_div a b = NaN"

text \<open>The comparison \<open>a >= b\<close>; every comparison with NaN is false.\<close>

fun js_ge :: "jsnum \<Rightarrow> jsnum \<Rightarrow> bool" where
  "js_ge NaN b = False"
| "js_ge a NaN = False"
| "js_ge (Num a) (Num b) = (b \<le> a)"
| "js_ge PInf b = True"
| "js_ge a NInf = True"
| "js_ge a b = False"

section \<open>Data model of the collector\<close>

text \<open>A mouse sample, the object literal pushed by \<open>trackMouse\<close>.\<close>

record MouseSample =
  m_x :: real
  m_y :: real
  m_t :: int
  m_pageX :: real
  m_pageY :: real

text \<open>The marker stored by \<open>trackKeyDown\<close> in \<open>lastKeyDown\<close>.\<close>

record KeydownMarker =
  kd_time :: int
  kd_key :: string
  kd_code :: string

text \<open>
  A keystroke record, the object literal pushed by \<open>trackKeyUp\<close>. It has the three
  properties \<open>key\<close>, \<open>dwellTime\<close> and \<open>flightTime\<close> and no other.
\<close>

record KeystrokeRecord =
  ks_key :: string
  ks_dwellTime :: int
  ks_flightTime :: jsnum

text \<open>
  The read \<open>ks.t\<close> of a keystroke record. No keystroke record has a property \<open>t\<close>,
  so the read yields \<open>undefined\<close>.
\<close>

definition ks_t :: "KeystrokeRecord \<Rightarrow> jsval" where
  "ks_t ks = Undefined"

text \<open>The fields of a \<open>BiometricCollector\<close> instance; \<open>None\<close> is \<open>null\<close>.\<close>

record BiometricCollector =
  mouseMovements :: "MouseSample list"
  keystrokeTimings :: "KeystrokeRecord list"
  lastKeyDown :: "KeydownMarker option"
  startTime :: int

text \<open>The properties the handlers read from the browser's events.\<close>

record MouseEvent =
  clientX :: real
  clientY :: real
  pageX :: real
  pageY :: real

text \<open>
  A keyboard event; \<open>e_key = None\<close> is an event whose \<open>key\<close> is undefined. A key
  is the list of its code units, so that \<open>length\<close> is JavaScript's \<open>.length\<close>.
\<close>

record KeyEvent =
  e_key :: "string option"
  e_code :: string
  e_repeat :: bool

section \<open>Event handlers\<close>

text \<open>Every handler takes the reading of \<open>Date.now()\<close> as an argument.\<close>

definition reset :: "int \<Rightarrow> BiometricCollector" where
  "reset now =
     \<lparr>mouseMovements = [], keystrokeTimings = [], lastKeyDown = None, startTime = now\<rparr>"

definition trackMouse :: "MouseEvent \<Rightarrow> int \<Rightarrow> BiometricCollector \<Rightarrow> BiometricCollector" where
  "trackMouse e now s =
     s\<lparr>mouseMovements := mouseMovements s @
         [\<lparr>m_x = clientX e, m_y = clientY e, m_t = now - startTime s,
           m_pageX = pageX e, m_pageY = pageY e\<rparr>]\<rparr>"

text \<open>\<open>!e.key\<close> holds when the key is undefined or the empty string.\<close>

definition trackKeyDown :: "KeyEvent \<Rightarrow> int \<Rightarrow> BiometricCollector \<Rightarrow> BiometricCollector" where
  "trackKeyDown e now s =
     (case e_key e of
        None \<Rightarrow> s
      | Some k \<Rightarrow>
          if k = [] \<or> length k > 1 \<or> e_repeat e then s
          else s\<lparr>lastKeyDown := Some \<lparr>kd_time = now, kd_key = k, kd_code = e_code e\<rparr>\<rparr>)"

text \<open>
  \<open>trackKeyUp\<close> reads the clock twice, once for the dwell time (\<open>now\<close>) and once for
  the flight time (\<open>now'\<close>). The previous record is the last element of the list.
\<close>

definition trackKeyUp :: "KeyEvent \<Rightarrow> int \<Rightarrow> int \<Rightarrow> BiometricCollector \<Rightarrow> BiometricCollector" where
  "trackKeyUp e now now' s =
     (case lastKeyDown s of
        None \<Rightarrow> s
      | Some mk \<Rightarrow>
          (case e_key e of
             None \<Rightarrow> s
           | Some k \<Rightarrow>
               if k \<noteq> kd_key mk then s
               else s\<lparr>keystrokeTimings := keystrokeTimings s @
                   [\<lparr>ks_key = k,
                     ks_dwellTime = now - kd_time mk,
                     ks_flightTime =
                       (if length (keystrokeTimings s) > 0
                        then js_sub (Num (of_int now'))
                               (ToNumber (ks_t (keystrokeTimings s ! (length (keystrokeTimings s) - 1))))
                        else Num 0)\<rparr>]\<rparr>))"

section \<open>The summary\<close>

record MovementEntry =
  p_dx :: real
  p_dy :: real
  p_dt :: real
  p_v :: jsnum

text \<open>\<open>totalDistance = None\<close>: the object has no property \<open>totalDistance\<close>.\<close>

record MouseMetrics =
  movementCount :: nat
  avgVelocity :: jsnum
  movementPattern :: "MovementEntry list"
  totalDistance :: "real option"

record KeyboardMetrics =
  keystrokeCount :: nat
  avgDwellTime :: jsnum
  avgFlightTime :: jsnum
  keyPattern :: "string list"

record BiometricSummary =
  sessionDuration :: int
  mouse :: MouseMetrics
  keyboard :: KeyboardMetrics
  userAgent :: string
  screenResolution :: string
  collectedAt :: string

text \<open>
  What \<open>getBiometrics\<close> reads from its environment: the clock, the user agent, the
  decimal text of the screen's width and height, and the ISO text of the current date.
\<close>

record Env =
  env_now :: int
  env_userAgent :: string
  env_screenWidth :: string
  env_screenHeight :: string
  env_isoDate :: string

text \<open>
  The loop \<open>for (let i = 1; i < this.mouseMovements.length; i++)\<close>. Its state is
  \<open>totalDistance\<close>, \<open>velocities\<close> and \<open>mouseMetrics.movementPattern\<close>. The loop
  is entered at \<open>i = 1\<close>, so both \<open>i\<close> and \<open>i - 1\<close> are indices of the list. The
  samples hold finite numbers, so differences, products, sums and square roots of them
  are taken in the reals; the quotient \<open>distance / dt\<close> is a JavaScript division.
\<close>

function mouse_loop ::
  "MouseSample list \<Rightarrow> nat \<Rightarrow> real \<times> jsnum list \<times> MovementEntry list
     \<Rightarrow> real \<times> jsnum list \<times> MovementEntry list" where
  "mouse_loop ms i (td, velocities, pattern) =
     (if i < length ms then
        (let dx = m_x (ms ! i) - m_x (ms ! (i - 1));
             dy = m_y (ms ! i) - m_y (ms ! (i - 1));
             dt = real_of_int (m_t (ms ! i) - m_t (ms ! (i - 1))) / 1000;
             distance = sqrt (dx * dx + dy * dy)
         in mouse_loop ms (Suc i)
              (td + distance,
               (if dt > 0 then velocities @ [js_div (Num distance) (Num dt)] else velocities),
               pattern @ [\<lparr>p_dx = dx, p_dy = dy, p_dt = dt,
                           p_v = (if dt > 0 then js_div (Num distance) (Num dt) else Num 0)\<rparr>]))
      else (td, velocities, pattern))"
  by pat_completeness auto
termination
  by (relation "measure (\<lambda>(ms, i, acc). length ms - i)") auto

declare mouse_loop.simps [simp del]

definition mouse_metrics :: "MouseSample list \<Rightarrow> MouseMetrics" where
  "mouse_metrics ms =
     (if length ms > 1 then
        (case mouse_loop ms 1 (0, [], []) of
           (td, velocities, pattern) \<Rightarrow>
             \<lparr>movementCount = length ms,
              avgVelocity =
                (if length velocities > 0
                 then js_div (foldl js_add (Num 0) velocities) (Num (real (length velocities)))
                 else Num 0),
              movementPattern = pattern,
              totalDistance = Some td\<rparr>)
      else \<lparr>movementCount = length ms, avgVelocity = Num 0, movementPattern = [],
            totalDistance = None\<rparr>)"

text \<open>
  \<open>slice(1).map((ks, i) => ks.t - this.keystrokeTimings[i].t)\<close>: the callback gets the
  element and its index in the sliced list.
\<close>

definition flightTimes :: "KeystrokeRecord list \<Rightarrow> jsnum list" where
  "flightTimes kts =
     map (\<lambda>(ks, i). js_sub (ToNumber (ks_t ks)) (ToNumber (ks_t (kts ! i))))
       (zip (drop 1 kts) [0 ..< length (drop 1 kts)])"

definition keyboard_metrics :: "KeystrokeRecord list \<Rightarrow> KeyboardMetrics" where
  "keyboard_metrics kts =
     \<lparr>keystrokeCount = length kts,
      avgDwellTime =
        (if length kts > 0
         then js_div (foldl (\<lambda>sum ks. js_add sum (Num (of_int (ks_dwellTime ks)))) (Num 0) kts)
                (Num (real (length kts)))
         else Num 0),
      avgFlightTime =
        (if length kts > 0 \<and> length (flightTimes kts) > 0
         then js_div (foldl (\<lambda>sum ft. js_add sum ft) (Num 0) (flightTimes kts))
                (Num (real (length (flightTimes kts))))
         else Num 0),
      keyPattern = map ks_key kts\<rparr>"

text \<open>
  \<open>getBiometrics\<close> returns the summary together with the collector as the call
  leaves it.
\<close>

definition getBiometrics :: "Env \<Rightarrow> BiometricCollector \<Rightarrow> BiometricSummary \<times> BiometricCollector" where
  "getBiometrics env s =
     (\<lparr>sessionDuration = env_now env - startTime s,
       mouse = mouse_metrics (mouseMovements s),
       keyboard = keyboard_metrics (keystrokeTimings s),
       userAgent = env_userAgent env,
       screenResolution = env_screenWidth env @ ''x'' @ env_screenHeight env,
       collectedAt = env_isoDate env\<rparr>, s)"

section \<open>Runs of events\<close>

datatype event =
    MouseMove MouseEvent int
  | KeyDown KeyEvent int
  | KeyUp KeyEvent int int

fun dispatch :: "BiometricCollector \<Rightarrow> event \<Rightarrow> BiometricCollector" where
  "dispatch s (MouseMove e now) = trackMouse e now s"
| "dispatch s (KeyDown e now) = trackKeyDown e now s"
| "dispatch s (KeyUp e now now') = trackKeyUp e now now' s"

definition run :: "BiometricCollector \<Rightarrow> event list \<Rightarrow> BiometricCollector" where
  "run s evs = foldl dispatch s evs"

section \<open>Auxiliary notions for the statements\<close>

text \<open>The quantities of one pass of the loop of \<open>getBiometrics\<close>, at index \<open>i\<close>.\<close>

definition seg_dx :: "MouseSample list \<Rightarrow> nat \<Rightarrow> real" where
  "seg_dx ms i = m_x (ms ! i) - m_x (ms ! (i - 1))"

definition seg_dy :: "MouseSample list \<Rightarrow> nat \<Rightarrow> real" where
  "seg_dy ms i = m_y (ms ! i) - m_y (ms ! (i - 1))"

definition seg_dt :: "MouseSample list \<Rightarrow> nat \<Rightarrow> real" where
  "seg_dt ms i = real_of_int (m_t (ms ! i) - m_t (ms ! (i - 1))) / 1000"

definition seg_distance :: "MouseSample list \<Rightarrow> nat \<Rightarrow> real" where
  "seg_distance ms i = sqrt (seg_dx ms i * seg_dx ms i + seg_dy ms i * seg_dy ms i)"

definition seg_entry :: "MouseSample list \<Rightarrow> nat \<Rightarrow> MovementEntry" where
  "seg_entry ms i =
     \<lparr>p_dx = seg_dx ms i, p_dy = seg_dy ms i, p_dt = seg_dt ms i,
      p_v = (if seg_dt ms i > 0 then Num (seg_distance ms i / seg_dt ms i) else Num 0)\<rparr>"

text \<open>The finite velocities the loop collects: those of the indices with \<open>dt > 0\<close>.\<close>

definition seg_velocities :: "MouseSample list \<Rightarrow> real list" where
  "seg_velocities ms =
     map (\<lambda>j. seg_distance ms j / seg_dt ms j) (filter (\<lambda>j. seg_dt ms j > 0) [1 ..< length ms])"

text \<open>
  The specification's vocabulary for the mouse aggregate: the consecutive sample pairs,
  the time delta of a pair in seconds and its Euclidean distance.
\<close>

definition sample_pairs :: "MouseSample list \<Rightarrow> (MouseSample \<times> MouseSample) list" where
  "sample_pairs ms = zip ms (tl ms)"

definition pair_dt :: "MouseSample \<Rightarrow> MouseSample \<Rightarrow> real" where
  "pair_dt a b = real_of_int (m_t b - m_t a) / 1000"

definition pair_distance :: "MouseSample \<Rightarrow> MouseSample \<Rightarrow> real" where
  "pair_distance a b = sqrt ((m_x b - m_x a) * (m_x b - m_x a) + (m_y b - m_y a) * (m_y b - m_y a))"

text \<open>
  The average velocity in the specification's words: the instantaneous velocity of a pair
  is distance over time delta, and 0 when the time delta is 0; the average is the mean
  over all pairs, and 0 when there are no pairs.
\<close>

definition spec_velocity :: "MouseSample \<Rightarrow> MouseSample \<Rightarrow> real" where
  "spec_velocity a b = (if pair_dt a b = 0 then 0 else pair_distance a b / pair_dt a b)"

definition spec_avgVelocity :: "MouseSample list \<Rightarrow> real" where
  "spec_avgVelocity ms =
     (if sample_pairs ms = [] then 0
      else sum_list (map (\<lambda>(a, b). spec_velocity a b) (sample_pairs ms))
             / real (length (sample_pairs ms)))"

text \<open>The mean over the pairs with a positive time delta only.\<close>

definition positive_pairs :: "MouseSample list \<Rightarrow> (MouseSample \<times> MouseSample) list" where
  "positive_pairs ms = filter (\<lambda>(a, b). pair_dt a b > 0) (sample_pairs ms)"

definition mean_positive_velocity :: "MouseSample list \<Rightarrow> real" where
  "mean_positive_velocity ms =
     (if positive_pairs ms = [] then 0
      else sum_list (map (\<lambda>(a, b). pair_distance a b / pair_dt a b) (positive_pairs ms))
             / real (length (positive_pairs ms)))"

text \<open>A keydown that \<open>trackKeyDown\<close> does not ignore, with its key.\<close>

definition qualifying :: "KeyEvent \<Rightarrow> string \<Rightarrow> bool" where
  "qualifying e k = (e_key e = Some k \<and> length k = 1 \<and> e_repeat e = False)"

text \<open>A list of keyup events, each with its two clock readings.\<close>

definition keyups :: "(KeyEvent \<times> int \<times> int) list \<Rightarrow> event list" where
  "keyups us = map (\<lambda>(e, now, now'). KeyUp e now now') us"

text \<open>
  A collector with the fields \<open>pageX\<close> and \<open>pageY\<close> of its mouse samples and the field
  \<open>code\<close> of its marker overwritten by fixed values.
\<close>

definition forget_page :: "MouseSample \<Rightarrow> MouseSample" where
  "forget_page m = m\<lparr>m_pageX := 0, m_pageY := 0\<rparr>"

definition forget_unused :: "BiometricCollector \<Rightarrow> BiometricCollector" where
  "forget_unused s =
     s\<lparr>mouseMovements := map forget_page (mouseMovements s),
       lastKeyDown := map_option (\<lambda>mk. mk\<lparr>kd_code := []\<rparr>) (lastKeyDown s)\<rparr>"

text \<open>Concrete events, environments and sessions used in the examples.\<close>

definition key_a :: KeyEvent where
  "key_a = \<lparr>e_key = Some ''a'', e_code = ''KeyA'', e_repeat = False\<rparr>"

definition key_b :: KeyEvent where
  "key_b = \<lparr>e_key = Some ''b'', e_code = ''KeyB'', e_repeat = False\<rparr>"

definition key_shift :: KeyEvent where
  "key_shift = \<lparr>e_key = Some ''Shift'', e_code = ''ShiftLeft'', e_repeat = False\<rparr>"

definition env0 :: Env where
  "env0 = \<lparr>env_now = 2000, env_userAgent = ''UA'', env_screenWidth = ''1920'',
           env_screenHeight = ''1080'', env_isoDate = ''2024-01-01T00:00:02.000Z''\<rparr>"

definition move_at :: "real \<Rightarrow> real \<Rightarrow> MouseEvent" where
  "move_at px py = \<lparr>clientX = px, clientY = py, pageX = px, pageY = py\<rparr>"

text \<open>Two keystrokes: \<open>a\<close> held from 1000 to 1100, \<open>b\<close> held from 1200 to 1300.\<close>

definition two_keystrokes :: BiometricCollector where
  "two_keystrokes =
     run (reset 0) [KeyDown key_a 1000, KeyUp key_a 1100 1100,
                    KeyDown key_b 1200, KeyUp key_b 1300 1300]"

text \<open>One keydown of \<open>a\<close> followed by two keyups of \<open>a\<close>.\<close>

definition one_down_two_ups :: BiometricCollector where
  "one_down_two_ups =
     run (reset 0) [KeyDown key_a 1000, KeyUp key_a 1100 1100, KeyUp key_a 1150 1150]"

text \<open>The moves \<open>(0,0)\<close> at time 0 and \<open>(3,4)\<close> one second later.\<close>

definition two_moves :: BiometricCollector where
  "two_moves = run (reset 0) [MouseMove (move_at 0 0) 0, MouseMove (move_at 3 4) 1000]"

text \<open>The same, followed by a third sample at the same place and time as the second.\<close>

definition three_moves :: BiometricCollector where
  "three_moves =
     run (reset 0) [MouseMove (move_at 0 0) 0, MouseMove (move_at 3 4) 1000,
                    MouseMove (move_at 3 4) 1000]"

text \<open>
  A session of two moves and a keydown, with the page offset \<open>(px, py)\<close> of the moves and
  the \<open>code\<close> of the key as parameters.
\<close>

definition page_session :: "real \<Rightarrow> real \<Rightarrow> string \<Rightarrow> BiometricCollector" where
  "page_session px py c =
     run (reset 0)
       [MouseMove \<lparr>clientX = 0, clientY = 0, pageX = px, pageY = py\<rparr> 0,
        MouseMove \<lparr>clientX = 3, clientY = 4, pageX = px + 3, pageY = py + 4\<rparr> 1000,
        KeyDown \<lparr>e_key = Some ''a'', e_code = c, e_repeat = False\<rparr> 1500]"

section \<open>Arithmetic of the summary\<close>

lemma js_add_NaN_right: "js_add a NaN = NaN"
  by (cases a) simp_all

lemma foldl_js_add_Num:
  "foldl js_add (Num a) (map Num rs) = Num (a + sum_list rs)"
  by (induction rs arbitrary: a) (simp_all add: add.assoc)

lemma foldl_js_add_all_NaN:
  "xs \<noteq> [] \<Longrightarrow> \<forall>x \<in> set xs. x = NaN \<Longrightarrow> foldl js_add a xs = NaN"
proof (induction xs arbitrary: a)
  case Nil
  then show ?case by simp
next
  case (Cons x xs)
  then have x: "x = NaN" by simp
  show ?case
  proof (cases "xs = []")
    case True
    with x show ?thesis by (simp add: js_add_NaN_right)
  next
    case False
    with Cons show ?thesis by simp
  qed
qed

lemma sqrt_25: "sqrt 25 = 5"
  by (rule real_sqrt_unique) simp_all

lemma upt_1_2: "[1 ..< 2] = [1::nat]"
  by (simp add: upt_conv_Cons)

lemma upt_1_3: "[1 ..< 3] = [1::nat, 2]"
  by (simp add: upt_conv_Cons)

section \<open>Event handlers\<close>

subsection \<open>Dropped keyups\<close>

text \<open>
  C7. A keyup with no pending marker, or whose key is not the marker's key (an undefined
  key included), leaves the collector as it is: no keystroke record is appended.
\<close>

theorem trackKeyUp_unmatched_unchanged:
  "lastKeyDown s = None \<or> (\<exists>mk. lastKeyDown s = Some mk \<and> e_key e \<noteq> Some (kd_key mk))
   \<Longrightarrow> trackKeyUp e now now' s = s"
  by (auto simp: trackKeyUp_def split: option.splits)

text \<open>
  A keyup of \<open>Shift\<close> after a keydown of \<open>Shift\<close>, which \<open>trackKeyDown\<close> ignores, and a
  keyup of \<open>b\<close> while the marker holds \<open>a\<close>.
\<close>

theorem trackKeyUp_unmatched_unchanged_witness:
  "trackKeyUp key_shift 50 50 (trackKeyDown key_shift 40 (reset 0)) = reset 0 \<and>
   trackKeyUp key_b 70 70 (trackKeyDown key_a 60 (reset 0)) = trackKeyDown key_a 60 (reset 0)"
proof -
  have s: "trackKeyDown key_shift 40 (reset 0) = reset 0"
    by (simp add: trackKeyDown_def key_shift_def)
  have h1: "lastKeyDown (reset 0) = None \<or>
      (\<exists>mk. lastKeyDown (reset 0) = Some mk \<and> e_key key_shift \<noteq> Some (kd_key mk))"
    by (simp add: reset_def)
  have h2: "lastKeyDown (trackKeyDown key_a 60 (reset 0)) = None \<or>
      (\<exists>mk. lastKeyDown (trackKeyDown key_a 60 (reset 0)) = Some mk
         \<and> e_key key_b \<noteq> Some (kd_key mk))"
    by (simp add: reset_def trackKeyDown_def key_a_def key_b_def)
  show ?thesis
    using trackKeyUp_unmatched_unchanged [OF h1, of 50 50]
      trackKeyUp_unmatched_unchanged [OF h2, of 70 70]
    by (simp add: s)
qed

subsection \<open>Frame properties\<close>

text \<open>
  C9. Each handler writes its own field only: \<open>trackMouse\<close> leaves the keystroke list,
  the marker and the start time unchanged; \<open>trackKeyDown\<close> leaves the two lists and the
  start time unchanged; \<open>trackKeyUp\<close> leaves the mouse samples, the marker and the start
  time unchanged.
\<close>

theorem handlers_frame:
  "keystrokeTimings (trackMouse me now s) = keystrokeTimings s \<and>
   lastKeyDown (trackMouse me now s) = lastKeyDown s \<and>
   startTime (trackMouse me now s) = startTime s \<and>
   mouseMovements (trackKeyDown ke now s) = mouseMovements s \<and>
   keystrokeTimings (trackKeyDown ke now s) = keystrokeTimings s \<and>
   startTime (trackKeyDown ke now s) = startTime s \<and>
   mouseMovements (trackKeyUp ke now now' s) = mouseMovements s \<and>
   lastKeyDown (trackKeyUp ke now now' s) = lastKeyDown s \<and>
   startTime (trackKeyUp ke now now' s) = startTime s"
  by (simp add: trackMouse_def trackKeyDown_def trackKeyUp_def split: option.splits)

theorem handlers_frame_witness:
  "lastKeyDown (trackKeyUp key_a 1100 1100 (trackKeyDown key_a 1000 (reset 0)))
     = Some \<lparr>kd_time = 1000, kd_key = ''a'', kd_code = ''KeyA''\<rparr>"
  using handlers_frame [where s = "trackKeyDown key_a 1000 (reset 0)" and ke = key_a
      and now = 1100 and now' = 1100]
  by (simp add: trackKeyDown_def reset_def key_a_def)

subsection \<open>Matching keyups\<close>

text \<open>
  The record a matching keyup appends. The flight time of every record but the first is
  \<open>Date.now() - undefined\<close>, which is NaN.
\<close>

lemma trackKeyUp_appended:
  assumes "lastKeyDown s = Some mk" and "e_key e = Some (kd_key mk)"
  shows "trackKeyUp e now now' s =
     s\<lparr>keystrokeTimings := keystrokeTimings s @
        [\<lparr>ks_key = kd_key mk, ks_dwellTime = now - kd_time mk,
          ks_flightTime = (if keystrokeTimings s = [] then Num 0 else NaN)\<rparr>]\<rparr>"
  using assms by (simp add: trackKeyUp_def ks_t_def js_sub_def)

lemma trackKeyUp_dwell_nonneg:
  assumes "lastKeyDown s = Some mk" and "e_key e = Some (kd_key mk)" and "kd_time mk \<le> now"
  shows "0 \<le> ks_dwellTime (last (keystrokeTimings (trackKeyUp e now now' s)))"
  using assms by (simp add: trackKeyUp_appended)

lemma run_keyups_matching:
  assumes "lastKeyDown s = Some mk" and "\<forall>u \<in> set us. e_key (fst u) = Some (kd_key mk)"
  shows "length (keystrokeTimings (run s (keyups us))) = length (keystrokeTimings s) + length us \<and>
         lastKeyDown (run s (keyups us)) = Some mk"
  using assms
proof (induction us arbitrary: s)
  case Nil
  then show ?case by (simp add: run_def keyups_def)
next
  case (Cons u us)
  obtain e now now' where u: "u = (e, now, now')" by (cases u)
  let ?s' = "trackKeyUp e now now' s"
  from Cons.prems u have k: "e_key e = Some (kd_key mk)" by simp
  have s': "lastKeyDown ?s' = Some mk"
    "length (keystrokeTimings ?s') = Suc (length (keystrokeTimings s))"
    using Cons.prems(1) k by (simp_all add: trackKeyUp_appended)
  have step: "run s (keyups (u # us)) = run ?s' (keyups us)"
    by (simp add: run_def keyups_def u)
  from Cons.prems(2) have rest: "\<forall>u \<in> set us. e_key (fst u) = Some (kd_key mk)" by simp
  from Cons.IH [OF s'(1) rest] s'(2) show ?case
    unfolding step by simp
qed

text \<open>
  C3, as amended. A matching keyup appends one keystroke record and leaves the marker in
  place: after a qualifying keydown of key \<open>k\<close>, a run of \<open>n\<close> keyups of \<open>k\<close> with no
  keydown in between appends \<open>n\<close> records (one for one keyup), and the marker of that
  keydown is still pending at the end.
\<close>

theorem keyups_after_keydown_append_each:
  assumes "qualifying e k" and "\<forall>u \<in> set us. e_key (fst u) = Some k"
  shows "length (keystrokeTimings (run (trackKeyDown e now s) (keyups us)))
           = length (keystrokeTimings s) + length us \<and>
         lastKeyDown (run (trackKeyDown e now s) (keyups us))
           = Some \<lparr>kd_time = now, kd_key = k, kd_code = e_code e\<rparr>"
proof -
  let ?mk = "\<lparr>kd_time = now, kd_key = k, kd_code = e_code e\<rparr>"
  from assms(1) have k1: "length k = 1" and ek: "e_key e = Some k" and nr: "\<not> e_repeat e"
    by (simp_all add: qualifying_def)
  from k1 have kne: "k \<noteq> []" by auto
  have down: "trackKeyDown e now s = s\<lparr>lastKeyDown := Some ?mk\<rparr>"
    using k1 ek nr kne by (simp add: trackKeyDown_def)
  have mk: "lastKeyDown (trackKeyDown e now s) = Some ?mk"
    by (simp add: down)
  have all: "\<forall>u \<in> set us. e_key (fst u) = Some (kd_key ?mk)"
    using assms(2) by simp
  from run_keyups_matching [OF mk all] show ?thesis
    by (simp add: down)
qed

theorem keyups_after_keydown_append_each_witness:
  "length (keystrokeTimings one_down_two_ups) = 2 \<and>
   lastKeyDown one_down_two_ups = Some \<lparr>kd_time = 1000, kd_key = ''a'', kd_code = ''KeyA''\<rparr>"
proof -
  have q: "qualifying key_a ''a''"
    by (simp add: qualifying_def key_a_def)
  have all: "\<forall>u \<in> set [(key_a, 1100, 1100), (key_a, 1150, 1150)]. e_key (fst u) = Some ''a''"
    by (simp add: key_a_def)
  have r: "one_down_two_ups =
      run (trackKeyDown key_a 1000 (reset 0)) (keyups [(key_a, 1100, 1100), (key_a, 1150, 1150)])"
    by (simp add: one_down_two_ups_def run_def keyups_def)
  from keyups_after_keydown_append_each [OF q all, of 1000 "reset 0"] show ?thesis
    by (simp add: r reset_def key_a_def)
qed

text \<open>
  C3 as stated fails: after a keydown of \<open>a\<close> and a keyup of \<open>a\<close> the marker is not
  cleared, and a second keyup of \<open>a\<close> appends a second record.
\<close>

theorem keyup_clears_marker_counterexample:
  "lastKeyDown (trackKeyUp key_a 1100 1100 (trackKeyDown key_a 1000 (reset 0))) \<noteq> None \<and>
   length (keystrokeTimings one_down_two_ups) \<noteq> 1"
  by (simp add: one_down_two_ups_def run_def reset_def trackKeyDown_def trackKeyUp_def key_a_def)

subsection \<open>Dwell and flight time of the records\<close>

lemma two_keystrokes_records:
  "keystrokeTimings two_keystrokes =
     [\<lparr>ks_key = ''a'', ks_dwellTime = 100, ks_flightTime = Num 0\<rparr>,
      \<lparr>ks_key = ''b'', ks_dwellTime = 100, ks_flightTime = NaN\<rparr>]"
  by (simp add: two_keystrokes_def run_def reset_def trackKeyDown_def trackKeyUp_def
      key_a_def key_b_def ks_t_def js_sub_def)

text \<open>
  C2. In the session \<open>two_keystrokes\<close> every keyup comes after its keydown and the
  records are captured in increasing time order. Both dwell times are 100, the flight
  time of the first record is 0, and the flight time of the second record is NaN, for
  which \<open>flightTime >= 0\<close> is false.
\<close>

theorem flightTime_second_record_NaN:
  "map ks_dwellTime (keystrokeTimings two_keystrokes) = [100, 100] \<and>
   map ks_flightTime (keystrokeTimings two_keystrokes) = [Num 0, NaN] \<and>
   \<not> js_ge (ks_flightTime (keystrokeTimings two_keystrokes ! 1)) (Num 0)"
  by (simp add: two_keystrokes_records)

section \<open>The mouse aggregate\<close>

subsection \<open>The loop in closed form\<close>

lemma mouse_loop_stop:
  "\<not> i < length ms \<Longrightarrow> mouse_loop ms i (td, vs, pat) = (td, vs, pat)"
  by (subst mouse_loop.simps) simp

lemma mouse_loop_step:
  "i < length ms \<Longrightarrow>
   mouse_loop ms i (td, vs, pat) =
     mouse_loop ms (Suc i)
       (td + seg_distance ms i,
        (if seg_dt ms i > 0 then vs @ [Num (seg_distance ms i / seg_dt ms i)] else vs),
        pat @ [seg_entry ms i])"
  by (subst mouse_loop.simps)
     (simp add: Let_def seg_entry_def seg_distance_def seg_dx_def seg_dy_def seg_dt_def)

lemma mouse_loop_closed:
  "mouse_loop ms i (td, vs, pat) =
     (td + sum_list (map (seg_distance ms) [i ..< length ms]),
      vs @ map Num (map (\<lambda>j. seg_distance ms j / seg_dt ms j)
                     (filter (\<lambda>j. seg_dt ms j > 0) [i ..< length ms])),
      pat @ map (seg_entry ms) [i ..< length ms])"
proof (induction "length ms - i" arbitrary: i td vs pat)
  case 0
  then show ?case by (simp add: mouse_loop_stop)
next
  case (Suc n)
  then have lt: "i < length ms" and n: "n = length ms - Suc i" by simp_all
  from lt have up: "[i ..< length ms] = i # [Suc i ..< length ms]"
    by (simp add: upt_conv_Cons)
  show ?case
    by (simp add: mouse_loop_step [OF lt] Suc.hyps(1) [OF n] up)
qed

lemma mouse_metrics_many:
  assumes "length ms > 1"
  shows "mouse_metrics ms =
     \<lparr>movementCount = length ms,
      avgVelocity = (if seg_velocities ms = [] then Num 0
                     else Num (sum_list (seg_velocities ms) / real (length (seg_velocities ms)))),
      movementPattern = map (seg_entry ms) [1 ..< length ms],
      totalDistance = Some (sum_list (map (seg_distance ms) [1 ..< length ms]))\<rparr>"
proof -
  have loop: "mouse_loop ms 1 (0, [], []) =
      (sum_list (map (seg_distance ms) [1 ..< length ms]),
       map Num (seg_velocities ms), map (seg_entry ms) [1 ..< length ms])"
    unfolding seg_velocities_def mouse_loop_closed by simp
  show ?thesis
    unfolding mouse_metrics_def loop using assms
    by (simp add: foldl_js_add_Num)
qed

lemma mouse_metrics_few:
  "length ms \<le> 1 \<Longrightarrow>
   mouse_metrics ms =
     \<lparr>movementCount = length ms, avgVelocity = Num 0, movementPattern = [],
      totalDistance = None\<rparr>"
  by (simp add: mouse_metrics_def)

lemma movementPattern_seg:
  "length ms > 1 \<Longrightarrow> movementPattern (mouse_metrics ms) = map (seg_entry ms) [1 ..< length ms]"
  by (simp add: mouse_metrics_many)

text \<open>Every velocity of the movement pattern is a finite, non-negative number.\<close>

lemma movementPattern_velocities_finite:
  "e \<in> set (movementPattern (mouse_metrics ms)) \<Longrightarrow> \<exists>r. p_v e = Num r \<and> 0 \<le> r"
proof (cases "length ms > 1")
  case True
  assume "e \<in> set (movementPattern (mouse_metrics ms))"
  with True obtain j where "e = seg_entry ms j"
    by (auto simp: movementPattern_seg)
  then show ?thesis
    by (simp add: seg_entry_def seg_distance_def)
next
  case False
  assume "e \<in> set (movementPattern (mouse_metrics ms))"
  with False show ?thesis by (simp add: mouse_metrics_few)
qed

subsection \<open>The example sessions\<close>

lemma two_moves_samples:
  "mouseMovements two_moves =
     [\<lparr>m_x = 0, m_y = 0, m_t = 0, m_pageX = 0, m_pageY = 0\<rparr>,
      \<lparr>m_x = 3, m_y = 4, m_t = 1000, m_pageX = 3, m_pageY = 4\<rparr>]"
  by (simp add: two_moves_def run_def reset_def trackMouse_def move_at_def)

lemma three_moves_samples:
  "mouseMovements three_moves =
     [\<lparr>m_x = 0, m_y = 0, m_t = 0, m_pageX = 0, m_pageY = 0\<rparr>,
      \<lparr>m_x = 3, m_y = 4, m_t = 1000, m_pageX = 3, m_pageY = 4\<rparr>,
      \<lparr>m_x = 3, m_y = 4, m_t = 1000, m_pageX = 3, m_pageY = 4\<rparr>]"
  by (simp add: three_moves_def run_def reset_def trackMouse_def move_at_def)

lemma two_moves_metrics:
  "mouse (fst (getBiometrics env two_moves)) =
     \<lparr>movementCount = 2, avgVelocity = Num 5,
      movementPattern = [\<lparr>p_dx = 3, p_dy = 4, p_dt = 1, p_v = Num 5\<rparr>],
      totalDistance = Some 5\<rparr>"
  by (simp add: getBiometrics_def two_moves_samples mouse_metrics_many seg_velocities_def
      upt_1_2 seg_entry_def seg_distance_def seg_dx_def seg_dy_def seg_dt_def sqrt_25)

lemma three_moves_metrics:
  "mouse (fst (getBiometrics env three_moves)) =
     \<lparr>movementCount = 3, avgVelocity = Num 5,
      movementPattern = [\<lparr>p_dx = 3, p_dy = 4, p_dt = 1, p_v = Num 5\<rparr>,
                         \<lparr>p_dx = 0, p_dy = 0, p_dt = 0, p_v = Num 0\<rparr>],
      totalDistance = Some 5\<rparr>"
  by (simp add: getBiometrics_def three_moves_samples mouse_metrics_many seg_velocities_def
      upt_1_3 seg_entry_def seg_distance_def seg_dx_def seg_dy_def seg_dt_def sqrt_25)

lemma three_moves_spec: "spec_avgVelocity (mouseMovements three_moves) = 5 / 2"
  by (simp add: three_moves_samples spec_avgVelocity_def sample_pairs_def spec_velocity_def
      pair_dt_def pair_distance_def sqrt_25)

subsection \<open>Pairs with time delta 0\<close>

text \<open>
  C6. When two consecutive mouse samples have the same time, the movement-pattern entry
  of the pair exists and its velocity is the number 0: the quotient is not taken.
\<close>

theorem zero_dt_velocity_zero:
  assumes i: "Suc i < length (mouseMovements s)"
    and t: "m_t (mouseMovements s ! Suc i) = m_t (mouseMovements s ! i)"
  shows "i < length (movementPattern (mouse (fst (getBiometrics env s)))) \<and>
         p_v (movementPattern (mouse (fst (getBiometrics env s))) ! i) = Num 0"
proof -
  let ?ms = "mouseMovements s"
  from i have many: "length ?ms > 1" by simp
  have pat: "movementPattern (mouse (fst (getBiometrics env s)))
      = map (seg_entry ?ms) [1 ..< length ?ms]"
    by (simp add: getBiometrics_def movementPattern_seg [OF many])
  from i have len: "i < length (map (seg_entry ?ms) [1 ..< length ?ms])" by simp
  from i have nth: "map (seg_entry ?ms) [1 ..< length ?ms] ! i = seg_entry ?ms (Suc i)"
    by simp
  from t have "seg_dt ?ms (Suc i) = 0" by (simp add: seg_dt_def)
  then have "p_v (seg_entry ?ms (Suc i)) = Num 0" by (simp add: seg_entry_def)
  with len nth show ?thesis unfolding pat by simp
qed

theorem zero_dt_velocity_zero_witness:
  "p_v (movementPattern (mouse (fst (getBiometrics env0 three_moves))) ! 1) = Num 0"
proof -
  have h1: "Suc 1 < length (mouseMovements three_moves)"
    by (simp add: three_moves_samples)
  have h2: "m_t (mouseMovements three_moves ! Suc 1) = m_t (mouseMovements three_moves ! 1)"
    by (simp add: three_moves_samples)
  from zero_dt_velocity_zero [OF h1 h2, of env0] show ?thesis by simp
qed

subsection \<open>The average velocity\<close>

lemma idx_pairs:
  "map (\<lambda>j. (ms ! (j - 1), ms ! j)) [1 ..< length ms] = sample_pairs ms"
  by (rule nth_equalityI) (auto simp: sample_pairs_def nth_tl)

lemma seg_velocities_pairs:
  "seg_velocities ms = map (\<lambda>(a, b). pair_distance a b / pair_dt a b) (positive_pairs ms)"
proof -
  let ?h = "\<lambda>j. (ms ! (j - 1), ms ! j)"
  let ?P = "\<lambda>(a, b). pair_dt a b > 0"
  let ?g = "\<lambda>(a, b). pair_distance a b / pair_dt a b"
  have "seg_velocities ms = map (?g \<circ> ?h) (filter (?P \<circ> ?h) [1 ..< length ms])"
    by (simp add: seg_velocities_def seg_distance_def seg_dt_def seg_dx_def seg_dy_def
        pair_distance_def pair_dt_def comp_def)
  also have "\<dots> = map ?g (filter ?P (map ?h [1 ..< length ms]))"
    by (simp add: filter_map)
  also have "\<dots> = map ?g (filter ?P (sample_pairs ms))"
    by (simp only: idx_pairs)
  finally show ?thesis
    by (simp only: positive_pairs_def)
qed

lemma avgVelocity_mean_positive:
  "avgVelocity (mouse_metrics ms) = Num (mean_positive_velocity ms)"
proof (cases "length ms > 1")
  case True
  then show ?thesis
    by (simp add: mouse_metrics_many seg_velocities_pairs mean_positive_velocity_def)
next
  case False
  then have "sample_pairs ms = []"
    by (cases ms) (simp_all add: sample_pairs_def)
  with False show ?thesis
    by (simp add: mouse_metrics_few mean_positive_velocity_def positive_pairs_def)
qed

text \<open>
  C4, as amended. The average velocity of the summary is the mean of the velocities
  (distance over time delta in seconds) of the consecutive sample pairs whose time delta
  is positive, and 0 when there is no such pair; a pair with time delta 0 is left out of
  the mean. For the moves \<open>(0,0)\<close> at \<open>t0\<close> and \<open>(3,4)\<close> one second later the movement
  pattern is the one entry \<open>{dx: 3, dy: 4, dt: 1, v: 5}\<close> and the average velocity is 5.
\<close>

theorem avgVelocity_mean_of_positive_pairs:
  "avgVelocity (mouse (fst (getBiometrics env s))) = Num (mean_positive_velocity (mouseMovements s)) \<and>
   movementPattern (mouse (fst (getBiometrics env two_moves)))
     = [\<lparr>p_dx = 3, p_dy = 4, p_dt = 1, p_v = Num 5\<rparr>] \<and>
   avgVelocity (mouse (fst (getBiometrics env two_moves))) = Num 5"
  by (simp add: two_moves_metrics) (simp add: getBiometrics_def avgVelocity_mean_positive)

theorem avgVelocity_mean_of_positive_pairs_witness:
  "mean_positive_velocity (mouseMovements three_moves) = 5"
  using avgVelocity_mean_of_positive_pairs [of env0 three_moves]
  by (simp add: three_moves_metrics)

text \<open>
  C4 as stated fails on \<open>three_moves\<close>: the second pair has time delta 0, the mean of the
  velocities of all pairs, that pair counted with velocity 0, is \<open>5/2\<close>, and the summary's
  average velocity is 5.
\<close>

theorem avgVelocity_all_pairs_counterexample:
  "spec_avgVelocity (mouseMovements three_moves) = 5 / 2 \<and>
   avgVelocity (mouse (fst (getBiometrics env0 three_moves))) = Num 5 \<and>
   avgVelocity (mouse (fst (getBiometrics env0 three_moves)))
     \<noteq> Num (spec_avgVelocity (mouseMovements three_moves))"
  by (simp add: three_moves_spec three_moves_metrics)

subsection \<open>Missing data\<close>

text \<open>
  With fewer than two mouse samples the average velocity is 0, the movement pattern is
  empty and the summary has no property \<open>totalDistance\<close>; with no keystroke record the
  two averages are 0 and the key pattern is empty.
\<close>

lemma getBiometrics_defaults:
  "(length (mouseMovements s) < 2 \<longrightarrow>
      avgVelocity (mouse (fst (getBiometrics env s))) = Num 0 \<and>
      movementPattern (mouse (fst (getBiometrics env s))) = [] \<and>
      totalDistance (mouse (fst (getBiometrics env s))) = None) \<and>
   (keystrokeTimings s = [] \<longrightarrow>
      avgDwellTime (keyboard (fst (getBiometrics env s))) = Num 0 \<and>
      avgFlightTime (keyboard (fst (getBiometrics env s))) = Num 0 \<and>
      keyPattern (keyboard (fst (getBiometrics env s))) = [])"
  by (simp add: getBiometrics_def mouse_metrics_def keyboard_metrics_def)

text \<open>
  C5. On a collector that has just been reset, the summary's average velocity is 0 and
  its movement pattern is empty, but \<open>totalDistance\<close> is absent, not 0.
\<close>

theorem totalDistance_absent_without_samples:
  "avgVelocity (mouse (fst (getBiometrics env0 (reset 0)))) = Num 0 \<and>
   movementPattern (mouse (fst (getBiometrics env0 (reset 0)))) = [] \<and>
   totalDistance (mouse (fst (getBiometrics env0 (reset 0)))) = None \<and>
   totalDistance (mouse (fst (getBiometrics env0 (reset 0)))) \<noteq> Some 0"
  using getBiometrics_defaults [of "reset 0" env0]
  by (simp add: reset_def)

section \<open>The keyboard aggregate\<close>

lemma flightTimes_length: "length (flightTimes kts) = length kts - 1"
  by (simp add: flightTimes_def)

lemma flightTimes_all_NaN: "\<forall>x \<in> set (flightTimes kts). x = NaN"
  by (auto simp: flightTimes_def ks_t_def js_sub_def)

text \<open>The average flight time is 0 with fewer than two records and NaN otherwise.\<close>

lemma avgFlightTime_cases:
  "avgFlightTime (keyboard_metrics kts) = (if length kts < 2 then Num 0 else NaN)"
proof (cases "length kts < 2")
  case True
  then show ?thesis
    by (simp add: keyboard_metrics_def flightTimes_length)
next
  case False
  then have ne: "flightTimes kts \<noteq> []"
    using flightTimes_length [of kts] by auto
  have "foldl js_add (Num 0) (flightTimes kts) = NaN"
    by (rule foldl_js_add_all_NaN [OF ne flightTimes_all_NaN])
  moreover from False have "kts \<noteq> []" by auto
  ultimately show ?thesis
    using False ne by (simp add: keyboard_metrics_def)
qed

text \<open>
  C1. In the session \<open>two_keystrokes\<close> the two records are captured at 1100 and 1300, so
  the mean of the capture-time deltas is 200; the summary's average flight time is NaN.
\<close>

theorem avgFlightTime_two_keystrokes_NaN:
  "avgFlightTime (keyboard (fst (getBiometrics env0 two_keystrokes))) = NaN \<and>
   avgFlightTime (keyboard (fst (getBiometrics env0 two_keystrokes))) \<noteq> Num 200"
  by (simp add: getBiometrics_def avgFlightTime_cases two_keystrokes_records)

section \<open>The summary as a read of the collector\<close>

text \<open>
  C8. \<open>getBiometrics\<close> leaves the collector as it found it (mouse samples, keystroke
  records, marker and start time), and a second call in the same environment returns the
  same summary.
\<close>

theorem getBiometrics_read_only:
  "snd (getBiometrics env s) = s \<and>
   fst (getBiometrics env (snd (getBiometrics env s))) = fst (getBiometrics env s)"
  by (simp add: getBiometrics_def)

subsection \<open>Fields the summary does not read\<close>

lemma seg_forget:
  assumes "j < length ms"
  shows "seg_dt (map forget_page ms) j = seg_dt ms j"
    and "seg_distance (map forget_page ms) j = seg_distance ms j"
    and "seg_entry (map forget_page ms) j = seg_entry ms j"
proof -
  from assms have j1: "j - 1 < length ms" by simp
  show dt: "seg_dt (map forget_page ms) j = seg_dt ms j"
    using assms j1 by (simp add: seg_dt_def forget_page_def)
  show d: "seg_distance (map forget_page ms) j = seg_distance ms j"
    using assms j1 by (simp add: seg_distance_def seg_dx_def seg_dy_def forget_page_def)
  have "seg_dx (map forget_page ms) j = seg_dx ms j" "seg_dy (map forget_page ms) j = seg_dy ms j"
    using assms j1 by (simp_all add: seg_dx_def seg_dy_def forget_page_def)
  with dt d show "seg_entry (map forget_page ms) j = seg_entry ms j"
    by (simp add: seg_entry_def)
qed

lemma mouse_loop_forget:
  "mouse_loop (map forget_page ms) i acc = mouse_loop ms i acc"
proof -
  obtain td vs pat where acc: "acc = (td, vs, pat)" by (cases acc)
  have f: "filter (\<lambda>j. 0 < seg_dt (map forget_page ms) j) [i ..< length ms]
         = filter (\<lambda>j. 0 < seg_dt ms j) [i ..< length ms]"
    by (rule filter_cong) (simp_all add: seg_forget)
  have v: "map (\<lambda>j. seg_distance (map forget_page ms) j / seg_dt (map forget_page ms) j)
             (filter (\<lambda>j. 0 < seg_dt ms j) [i ..< length ms])
         = map (\<lambda>j. seg_distance ms j / seg_dt ms j) (filter (\<lambda>j. 0 < seg_dt ms j) [i ..< length ms])"
    by (rule map_cong) (simp_all add: seg_forget)
  have d: "map (seg_distance (map forget_page ms)) [i ..< length ms]
         = map (seg_distance ms) [i ..< length ms]"
    by (rule map_cong) (simp_all add: seg_forget)
  have e: "map (seg_entry (map forget_page ms)) [i ..< length ms]
         = map (seg_entry ms) [i ..< length ms]"
    by (rule map_cong) (simp_all add: seg_forget)
  show ?thesis
    unfolding acc mouse_loop_closed by (simp add: f v d e)
qed

lemma mouse_metrics_forget:
  "mouse_metrics (map forget_page ms) = mouse_metrics ms"
  by (simp add: mouse_metrics_def mouse_loop_forget)

lemma getBiometrics_forget:
  "fst (getBiometrics env (forget_unused s)) = fst (getBiometrics env s)"
proof -
  have "mouseMovements (forget_unused s) = map forget_page (mouseMovements s)"
    by (simp add: forget_unused_def)
  moreover have "keystrokeTimings (forget_unused s) = keystrokeTimings s"
    by (simp add: forget_unused_def)
  moreover have "startTime (forget_unused s) = startTime s"
    by (simp add: forget_unused_def)
  ultimately show ?thesis
    by (simp add: getBiometrics_def mouse_metrics_forget)
qed

text \<open>
  C10. Two collectors that agree once the \<open>pageX\<close> and \<open>pageY\<close> of their mouse samples
  and the \<open>code\<close> of their marker are overwritten, that is, that differ in those fields
  only, have the same summary in the same environment.
\<close>

theorem summary_ignores_page_and_code:
  assumes "forget_unused s1 = forget_unused s2"
  shows "fst (getBiometrics env s1) = fst (getBiometrics env s2)"
proof -
  have "fst (getBiometrics env s1) = fst (getBiometrics env (forget_unused s1))"
    by (simp only: getBiometrics_forget)
  also have "\<dots> = fst (getBiometrics env (forget_unused s2))"
    by (simp only: assms)
  also have "\<dots> = fst (getBiometrics env s2)"
    by (simp only: getBiometrics_forget)
  finally show ?thesis .
qed

theorem summary_ignores_page_and_code_witness:
  "page_session 0 0 ''KeyA'' \<noteq> page_session 10 250 ''KeyQ'' \<and>
   fst (getBiometrics env0 (page_session 0 0 ''KeyA''))
     = fst (getBiometrics env0 (page_session 10 250 ''KeyQ''))"
proof -
  have h: "forget_unused (page_session 0 0 ''KeyA'') = forget_unused (page_session 10 250 ''KeyQ'')"
    by (simp add: page_session_def run_def reset_def trackMouse_def trackKeyDown_def
        forget_unused_def forget_page_def)
  have d: "page_session 0 0 ''KeyA'' \<noteq> page_session 10 250 ''KeyQ''"
    by (simp add: page_session_def run_def reset_def trackMouse_def trackKeyDown_def)
  from summary_ignores_page_and_code [OF h, of env0] d show ?thesis by simp
qed

end
